theory Spec2Isabelle
  imports Main "HOL-Library.Word"
begin

unbundle bit_operations_syntax

section \<open>The UDS message model of udsoncan\<close>

text \<open>
  A shallow embedding of \<^verbatim>\<open>src/udsoncan/__init__.py\<close>: the request and response
  framers, the response code taxonomy, the DidCodec factory and the Dtc status model.
  Python values are modelled by what the code tests on them: a \<^verbatim>\<open>bytes\<close> object is a
  list of 8-bit words (indexing it gives an integer between 0 and 255, read with
  \<open>uint\<close>), a Python integer is an \<open>int\<close>, \<^verbatim>\<open>None\<close> in an optional field is
  \<open>None\<close>, and every \<^verbatim>\<open>raise\<close> is an \<open>Inl\<close> result.
\<close>

subsection \<open>Python values and exceptions\<close>

type_synonym byte = "8 word"

text \<open>The exceptions the modelled code can raise, each with the name or message it carries.\<close>

datatype error =
    ValueError string
  | TypeError string
  | NameError string
  | StructError string

text \<open>
  The shapes of an argument that the constructors and the codec factory tell apart with
  \<^verbatim>\<open>is None\<close> and \<^verbatim>\<open>isinstance\<close>; \<open>PyOther\<close> stands for an object of any other type.
\<close>

datatype pyobj =
    PyNone
  | PyInt int
  | PyStr string
  | PyBytes "byte list"
  | PyOther

text \<open>
  \<^verbatim>\<open>struct.pack("B", n)\<close>: one unsigned byte, and \<^verbatim>\<open>struct.error\<close> when \<open>n\<close> is
  not in the range 0 to 255.
\<close>

definition struct_pack_B :: "int \<Rightarrow> error + byte list" where
  "struct_pack_B n =
     (if 0 \<le> n \<and> n \<le> 255 then Inr [word_of_int n]
      else Inl (StructError ''ubyte format requires 0 <= number <= 255''))"

text \<open>\<^verbatim>\<open>str(n)\<close> of a Python integer: its decimal digits, with a minus sign when negative.\<close>

definition digit_char :: "nat \<Rightarrow> char" where
  "digit_char d = ''0123456789'' ! d"

fun str_nat :: "nat \<Rightarrow> string" where
  "str_nat n = (if n < 10 then [digit_char n] else str_nat (n div 10) @ [digit_char (n mod 10)])"

definition str_int :: "int \<Rightarrow> string" where
  "str_int i = (if i < 0 then CHR ''-'' # str_nat (nat (- i)) else str_nat (nat i))"

subsection \<open>The service registry\<close>

text \<open>
  Modelled from the spec: the module \<^verbatim>\<open>udsoncan.services\<close> (\<^verbatim>\<open>BaseService\<close>,
  \<^verbatim>\<open>cls_from_request_id\<close>, \<^verbatim>\<open>cls_from_response_id\<close>) is not among the sources. The
  spec's Service Descriptor has a numeric request ID, a numeric response ID, a flag
  \<^verbatim>\<open>uses_subfunction\<close>, a flag \<^verbatim>\<open>has_response_data\<close> and a human-readable name; the
  fields carry the names of the methods the framers call on a service.
\<close>

record service_desc =
  get_name :: string
  request_id :: int
  response_id :: int
  use_subfunction :: bool
  has_response_data :: bool

text \<open>
  Modelled from the spec: the registry "maps numeric service/response IDs to service
  descriptors", "looked up by ID in both directions"; a lookup of an ID that no service
  has gives \<^verbatim>\<open>None\<close> ("Invalid service ID will make service None", says the source of
  \<^verbatim>\<open>Request.from_payload\<close>). The registry is the list of the registered services, and it
  is a parameter of every function that consults it.
\<close>

type_synonym registry = "service_desc list"

definition cls_from_request_id :: "registry \<Rightarrow> int \<Rightarrow> service_desc option" where
  "cls_from_request_id reg given_id = find (\<lambda>s. request_id s = given_id) reg"

text \<open>
  Modelled from the spec: \<^verbatim>\<open>services.cls_from_response_id\<close>, absent from the sources like
  the rest of the module; the lookup in the other direction, by response ID.
\<close>

definition cls_from_response_id :: "registry \<Rightarrow> int \<Rightarrow> service_desc option" where
  "cls_from_response_id reg given_id = find (\<lambda>s. response_id s = given_id) reg"

text \<open>
  What the attribute \<^verbatim>\<open>service\<close> of a request or a response holds: \<^verbatim>\<open>None\<close>, a service
  class (what the registry returns) or an instance of a service class.
\<close>

datatype service_val =
    SvcNone
  | SvcClass service_desc
  | SvcInstance service_desc

text \<open>The \<^verbatim>\<open>service\<close> argument of a constructor: one of the above, or any other object.\<close>

datatype service_arg =
    Service service_val
  | NotAService

subsection \<open>Request\<close>

text \<open>
  The attributes of a \<^verbatim>\<open>Request\<close>. \<^verbatim>\<open>data\<close> holds any object: \<^verbatim>\<open>from_payload\<close> stores
  a slice of the payload, a \<^verbatim>\<open>bytes\<close> object, while the constructor (line 113) accepts
  \<^verbatim>\<open>None\<close> and \<^verbatim>\<open>str\<close> objects only.
\<close>

record request =
  service :: service_val
  subfunction :: "int option"
  suppress_positive_response :: bool
  data :: pyobj

text \<open>
  \<^verbatim>\<open>cls()\<close> in \<^verbatim>\<open>Request.from_payload\<close>: the constructor with its default arguments takes
  the branch \<^verbatim>\<open>service is None\<close>, raises nothing and leaves every attribute at its default.
\<close>

definition Request_default :: request where
  "Request_default =
     \<lparr>service = SvcNone, subfunction = None, suppress_positive_response = False, data = PyNone\<rparr>"

text \<open>
  \<^verbatim>\<open>Request.get_payload\<close> (lines 118-138). \<^verbatim>\<open>issubclass\<close> raises \<^verbatim>\<open>TypeError\<close> when its
  first argument is not a class, which is the case of \<^verbatim>\<open>None\<close> and of a service instance.
  The payload is a \<^verbatim>\<open>bytes\<close> object, and \<^verbatim>\<open>payload += self.data\<close> raises \<^verbatim>\<open>TypeError\<close>
  for data of any other type.
\<close>

definition Request_get_payload :: "request \<Rightarrow> error + byte list" where
  "Request_get_payload self =
     (case service self of
        SvcNone \<Rightarrow> Inl (TypeError ''issubclass() arg 1 must be a class'')
      | SvcInstance s \<Rightarrow> Inl (TypeError ''issubclass() arg 1 must be a class'')
      | SvcClass s \<Rightarrow>
          if use_subfunction s \<and> subfunction self = None
          then Inl (ValueError ''Cannot generate a payload. Given subfunction is not a valid integer'')
          else
            (case struct_pack_B (request_id s) of
               Inl e \<Rightarrow> Inl e
             | Inr payload \<Rightarrow>
                 (case (if use_subfunction s
                        then (case subfunction self of
                                None \<Rightarrow> Inl (ValueError ''Cannot generate a payload. Given subfunction is not a valid integer'')
                              | Some sf \<Rightarrow>
                                  (case struct_pack_B (if suppress_positive_response self then sf OR 0x80 else sf) of
                                     Inl e \<Rightarrow> Inl e
                                   | Inr b \<Rightarrow> Inr (payload @ b)))
                        else Inr payload) of
                    Inl e \<Rightarrow> Inl e
                  | Inr payload' \<Rightarrow>
                      (case data self of
                         PyNone \<Rightarrow> Inr payload'
                       | PyBytes d \<Rightarrow> Inr (payload' @ d)
                       | _ \<Rightarrow> Inl (TypeError ''cannot concat to bytes'')))))"

text \<open>
  \<^verbatim>\<open>Request.from_payload\<close> (lines 140-155). Every index is guarded by a length test, so
  nothing is raised. \<^verbatim>\<open>payload[offset+1:]\<close> is \<open>drop (offset + 1) payload\<close>.
\<close>

definition Request_from_payload :: "registry \<Rightarrow> byte list \<Rightarrow> request" where
  "Request_from_payload reg payload =
     (let req = Request_default in
      if length payload \<ge> 1 then
        (case cls_from_request_id reg (uint (payload ! 0)) of
           None \<Rightarrow> req\<lparr>service := SvcNone\<rparr>
         | Some s \<Rightarrow>
             (let req = req\<lparr>service := SvcClass s\<rparr>;
                  offset = (if use_subfunction s then 1 else 0 :: nat);
                  req = (if use_subfunction s \<and> length payload \<ge> offset + 1
                         then req\<lparr>subfunction := Some (uint (payload ! 1) AND 0x7F),
                                  suppress_positive_response := (uint (payload ! 1) AND 0x80 > 0)\<rparr>
                         else req)
              in if length payload > offset + 1
                 then req\<lparr>data := PyBytes (drop (offset + 1) payload)\<rparr>
                 else req))
      else req)"

subsection \<open>The response code taxonomy\<close>

text \<open>
  The integer members of \<^verbatim>\<open>Response.Code\<close> (lines 172-224), in the order in which
  \<^verbatim>\<open>inspect.getmembers\<close> lists them: sorted by name. The other members of the class
  (its methods and the attributes every class has) are not integers and are skipped by
  the test \<^verbatim>\<open>isinstance(member[1], int)\<close>. This is the class as the interpreters before
  Python 3.13 build it; from 3.13 on every class also has the integer attribute
  \<^verbatim>\<open>__firstlineno__\<close>, which is not modelled.
\<close>

definition PositiveResponse :: int where
  "PositiveResponse = 0"

definition Code_members :: "(string \<times> int) list" where
  "Code_members =
    [(''AccessDenied'', 0x3C),
     (''AuditTrailInformationNotAvailable'', 0x40),
     (''BrakeSwitchNotClosed'', 0x8F),
     (''BusyRepeatRequest'', 0x21),
     (''CertificateNotAvailable'', 0x3F),
     (''ConditionsNotCorrect'', 0x22),
     (''EngineIsNotRunning'', 0x84),
     (''EngineIsRunning'', 0x83),
     (''EngineRunTimeTooLow'', 0x85),
     (''ExceedNumberOfAttempts'', 0x36),
     (''FailurePreventsExecutionOfRequestedAction'', 0x26),
     (''GeneralProgrammingFailure'', 0x72),
     (''GeneralReject'', 0x10),
     (''GeneralSecurityViolation'', 0x38),
     (''ISOSAEReserved'', 0x8E),
     (''IncorrectMessageLegthOrInvalidFormat'', 0x13),
     (''InsufficientProtection'', 0x3A),
     (''InvalidKey'', 0x35),
     (''NoResponseFromSubnetComponent'', 0x25),
     (''PositiveResponse'', 0x00),
     (''RequestCorrectlyReceived_ResponsePending'', 0x78),
     (''RequestOutOfRange'', 0x31),
     (''RequestSequenceError'', 0x24),
     (''RequiredTimeDelayNotExpired'', 0x37),
     (''ResponseTooLong'', 0x14),
     (''RpmTooHigh'', 0x81),
     (''RpmTooLow'', 0x82),
     (''SecuredLinkNotSupported'', 0x3E),
     (''SecuredModeRequested'', 0x39),
     (''SecurityAccessDenied'', 0x33),
     (''ServiceNotSupported'', 0x11),
     (''ServiceNotSupportedInActiveSession'', 0x7F),
     (''ShifterLeverNotInPark'', 0x90),
     (''SubFunctionNotSupported'', 0x12),
     (''SubFunctionNotSupportedInActiveSession'', 0x7E),
     (''TemperatureTooHigh'', 0x86),
     (''TemperatureTooLow'', 0x87),
     (''TerminationWithSignatureRequested'', 0x3B),
     (''ThrottlePedalTooHigh'', 0x8A),
     (''ThrottlePedalTooLow'', 0x8B),
     (''TorqueConverterClutchLocked'', 0x91),
     (''TransferDataSuspended'', 0x71),
     (''TransmissionRangeNotInGear'', 0x8D),
     (''TransmissionRangeNotInNeutral'', 0x8C),
     (''UploadDownloadNotAccepted'', 0x70),
     (''VehicleSpeedTooHigh'', 0x88),
     (''VehicleSpeedTooLow'', 0x89),
     (''VersionNotSupported'', 0x3D),
     (''VoltageTooHigh'', 0x92),
     (''VoltageTooLow'', 0x93),
     (''WrongBlockSequenceCounter'', 0x73)]"

text \<open>
  \<^verbatim>\<open>Response.Code.get_name\<close> (lines 228-237): the empty string for \<^verbatim>\<open>None\<close>, the name
  of the first member whose value is the given one, and otherwise \<^verbatim>\<open>str(given_id)\<close>.
\<close>

definition Code_get_name :: "int option \<Rightarrow> string" where
  "Code_get_name given_id =
     (case given_id of
        None \<Rightarrow> ''''
      | Some c \<Rightarrow>
          (case find (\<lambda>member. snd member = c) Code_members of
             Some member \<Rightarrow> fst member
           | None \<Rightarrow> str_int c))"

text \<open>
  \<^verbatim>\<open>Response.Code.is_negative\<close> (lines 240-249): false for \<^verbatim>\<open>None\<close> and for
  \<^verbatim>\<open>PositiveResponse\<close>; otherwise true exactly when a member has the given value.
\<close>

definition Code_is_negative :: "int option \<Rightarrow> bool" where
  "Code_is_negative given_id =
     (if given_id = None \<or> given_id = Some PositiveResponse then False
      else (case given_id of
              None \<Rightarrow> False
            | Some c \<Rightarrow>
                (case find (\<lambda>member. snd member = c) Code_members of
                   Some member \<Rightarrow> True
                 | None \<Rightarrow> False)))"

subsection \<open>Response\<close>

record response =
  service :: service_val
  positive :: bool
  code :: "int option"
  code_name :: string
  data :: "byte list option"
  valid :: bool
  invalid_reason :: string

text \<open>
  \<^verbatim>\<open>Response.__init__\<close> (lines 252-291). Line 268 stores the \<^verbatim>\<open>service\<close> argument as it
  was given, after the branches of lines 253-260 have raised for an argument that is no
  service. The checks of \<^verbatim>\<open>data\<close> come before those of \<^verbatim>\<open>code\<close>, as in the source.
\<close>

definition Response_init :: "service_arg \<Rightarrow> pyobj \<Rightarrow> pyobj \<Rightarrow> error + response" where
  "Response_init service_a code_a data_a =
     (case service_a of
        NotAService \<Rightarrow> Inl (ValueError ''Given service must be a service class or instance'')
      | Service sv \<Rightarrow>
          (let self = \<lparr>service = sv, positive = False, code = None, code_name = '''',
                       data = None, valid = False, invalid_reason = ''Object not initialized''\<rparr>;
               no_data_allowed = (case sv of
                                    SvcNone \<Rightarrow> False
                                  | SvcClass s \<Rightarrow> \<not> has_response_data s
                                  | SvcInstance s \<Rightarrow> \<not> has_response_data s)
           in case (case data_a of
                      PyNone \<Rightarrow> Inr None
                    | PyBytes d \<Rightarrow>
                        if no_data_allowed
                        then Inl (ValueError ''This service should not have any data in its response.'')
                        else Inr (Some d)
                    | _ \<Rightarrow>
                        if no_data_allowed
                        then Inl (ValueError ''This service should not have any data in its response.'')
                        else Inl (ValueError ''Given data must be a valid bytes object'')) of
                Inl e \<Rightarrow> Inl e
              | Inr d \<Rightarrow>
                  (let self = self\<lparr>data := d\<rparr> in
                   case (case code_a of
                           PyNone \<Rightarrow> Inr self
                         | PyInt c \<Rightarrow>
                             if c < 0 \<or> c > 0xFF
                             then Inl (ValueError ''Response code must be an integer between 0 and 0xFF'')
                             else Inr (self\<lparr>code := Some c,
                                            code_name := Code_get_name (Some c),
                                            positive := (if \<not> Code_is_negative (Some c) then True
                                                         else positive self)\<rparr>)
                         | _ \<Rightarrow> Inl (ValueError ''Response code must be a valid integer'')) of
                     Inl e \<Rightarrow> Inl e
                   | Inr self \<Rightarrow>
                       if service self \<noteq> SvcNone \<and> code self \<noteq> None
                       then Inr (self\<lparr>valid := True, invalid_reason := ''''\<rparr>)
                       else Inr self)))"

text \<open>
  \<^verbatim>\<open>Response.get_payload\<close> (lines 294-309). For \<^verbatim>\<open>service = None\<close> the test
  \<^verbatim>\<open>isinstance\<close> is false and \<^verbatim>\<open>issubclass(None, ...)\<close> raises \<^verbatim>\<open>TypeError\<close>. The data
  is appended by lines 307-308 whatever \<^verbatim>\<open>positive\<close> is.
\<close>

definition Response_get_payload :: "response \<Rightarrow> error + byte list" where
  "Response_get_payload self =
     (case (case service self of
              SvcNone \<Rightarrow> Inl (TypeError ''issubclass() arg 1 must be a class'')
            | SvcClass s \<Rightarrow> Inr s
            | SvcInstance s \<Rightarrow> Inr s) of
        Inl e \<Rightarrow> Inl e
      | Inr s \<Rightarrow>
          (case code self of
             None \<Rightarrow> Inl (ValueError ''Cannot make payload from response object. Given response code is not a valid integer'')
           | Some c \<Rightarrow>
               (case struct_pack_B (response_id s) of
                  Inl e \<Rightarrow> Inl e
                | Inr payload \<Rightarrow>
                    (let payload = (if \<not> positive self then payload @ [0x7F] else payload) in
                     case (if \<not> positive self
                           then (case struct_pack_B c of
                                   Inl e \<Rightarrow> Inl e
                                 | Inr b \<Rightarrow> Inr (payload @ b))
                           else Inr payload) of
                       Inl e \<Rightarrow> Inl e
                     | Inr payload \<Rightarrow>
                         (case data self of
                            None \<Rightarrow> Inr payload
                          | Some d \<Rightarrow>
                              if has_response_data s then Inr (payload @ d) else Inr payload)))))"

text \<open>
  \<^verbatim>\<open>Response.from_payload\<close> (lines 313-354). \<^verbatim>\<open>cls()\<close> is the constructor with its
  default arguments; \<^verbatim>\<open>payload[data_start:]\<close> is \<open>drop data_start payload\<close>. The fields
  that a branch does not assign keep what the constructor gave them.
\<close>

definition Response_from_payload :: "registry \<Rightarrow> byte list \<Rightarrow> error + response" where
  "Response_from_payload reg payload =
     (case Response_init (Service SvcNone) PyNone PyNone of
        Inl e \<Rightarrow> Inl e
      | Inr response \<Rightarrow>
          if length payload \<ge> 1 then
            (case cls_from_response_id reg (uint (payload ! 0)) of
               None \<Rightarrow>
                 Inr (response\<lparr>service := SvcNone, valid := False,
                               invalid_reason := ''Payload first byte is not a know service.''\<rparr>)
             | Some s \<Rightarrow>
                 (let response = response\<lparr>service := SvcClass s\<rparr> in
                  if length payload \<ge> 2 then
                    (let (data_start, response) =
                       (if payload ! 1 \<noteq> 0x7F
                        then (1 :: nat,
                              response\<lparr>valid := True,
                                        code := Some PositiveResponse,
                                        code_name := Code_get_name (Some PositiveResponse),
                                        positive := True\<rparr>)
                        else (3,
                              (let response = response\<lparr>positive := False\<rparr> in
                               if length payload \<ge> 3
                               then response\<lparr>code := Some (uint (payload ! 2)),
                                              code_name := Code_get_name (Some (uint (payload ! 2))),
                                              valid := True\<rparr>
                               else response\<lparr>valid := False,
                                              invalid_reason := ''Incomplete invalid response code (7Fxx)''\<rparr>)))
                     in if length payload > data_start
                        then Inr (response\<lparr>data := Some (drop data_start payload)\<rparr>)
                        else Inr response)
                  else if has_response_data s
                  then Inr (response\<lparr>valid := False,
                                     invalid_reason := ''Payload must be at least 2 bytes long (service and response)''\<rparr>)
                  else Inr (response\<lparr>valid := True,
                                     code := Some PositiveResponse,
                                     code_name := Code_get_name (Some PositiveResponse),
                                     positive := True\<rparr>)))
          else
            Inr (response\<lparr>valid := False,
                          invalid_reason := ''Payload must be at least 2 bytes long (service and response)''\<rparr>))"

subsection \<open>DidCodec\<close>

text \<open>
  A codec object: the class it is an instance of (\<^verbatim>\<open>DidCodec\<close> or a subclass) and its
  attribute \<^verbatim>\<open>packstr\<close>. \<^verbatim>\<open>DidCodec.__init__\<close> (lines 370-371) stores its one argument,
  whose default is \<^verbatim>\<open>None\<close>.
\<close>

record didcodec =
  codec_class :: string
  packstr :: "string option"

definition DidCodec_init :: "string \<Rightarrow> string option \<Rightarrow> didcodec" where
  "DidCodec_init cls p = \<lparr>codec_class = cls, packstr = p\<rparr>"

text \<open>
  A class that is \<^verbatim>\<open>DidCodec\<close> or a subclass of it: its name, and what the call of the
  class with no argument does. That call runs the constructor of the class itself: it
  returns an instance, with the \<^verbatim>\<open>packstr\<close> that constructor sets, or it raises (a
  constructor with a required argument raises \<^verbatim>\<open>TypeError\<close>).
\<close>

record codec_class_desc =
  class_name :: string
  call_no_args :: "error + didcodec"

text \<open>
  \<^verbatim>\<open>DidCodec\<close> itself, and a subclass that inherits \<^verbatim>\<open>DidCodec.__init__\<close>: the call with no
  argument returns an instance of the class whose \<^verbatim>\<open>packstr\<close> is the default \<^verbatim>\<open>None\<close>.
\<close>

definition inheriting_class :: "string \<Rightarrow> codec_class_desc" where
  "inheriting_class cls = \<lparr>class_name = cls, call_no_args = Inr (DidCodec_init cls None)\<rparr>"

text \<open>
  The argument of \<^verbatim>\<open>from_config\<close>, by the tests the function makes: an instance of
  \<^verbatim>\<open>DidCodec\<close> or of a subclass, a class that is \<^verbatim>\<open>DidCodec\<close> or a subclass, or any
  other object.
\<close>

datatype didconfig =
    CodecInstance didcodec
  | CodecClass codec_class_desc
  | NotACodec pyobj

text \<open>
  \<^verbatim>\<open>DidCodec.from_config\<close> (lines 391-400), called on \<^verbatim>\<open>DidCodec\<close> itself. Line 397
  returns \<^verbatim>\<open>didconfig()\<close>: what the call of the given class with no argument returns, and
  an exception of that call leaves \<^verbatim>\<open>from_config\<close> as it is. After the third \<^verbatim>\<open>if\<close> the
  body ends: the call returns \<^verbatim>\<open>None\<close>, the result \<open>Inr None\<close>. The function itself has
  no \<^verbatim>\<open>raise\<close>.
\<close>

definition from_config :: "didconfig \<Rightarrow> error + didcodec option" where
  "from_config didconfig =
     (case didconfig of
        CodecInstance c \<Rightarrow> Inr (Some c)
      | CodecClass cls \<Rightarrow>
          (case call_no_args cls of
             Inl e \<Rightarrow> Inl e
           | Inr c \<Rightarrow> Inr (Some c))
      | NotACodec v \<Rightarrow>
          (case v of
             PyStr s \<Rightarrow> Inr (Some (DidCodec_init ''DidCodec'' (Some s)))
           | _ \<Rightarrow> Inr None))"

text \<open>
  Three subclasses for the concrete inputs: \<^verbatim>\<open>MyCodec\<close> inherits the constructor;
  the constructor of \<^verbatim>\<open>FixedCodec\<close> takes no argument and sets the pack format
  \<^verbatim>\<open>">H"\<close>; the constructor of \<^verbatim>\<open>ArgCodec\<close> has a required argument.
\<close>

definition MyCodec :: codec_class_desc where
  "MyCodec = inheriting_class ''MyCodec''"

definition FixedCodec :: codec_class_desc where
  "FixedCodec =
     \<lparr>class_name = ''FixedCodec'',
      call_no_args = Inr \<lparr>codec_class = ''FixedCodec'', packstr = Some ''>H''\<rparr>\<rparr>"

definition ArgCodec :: codec_class_desc where
  "ArgCodec =
     \<lparr>class_name = ''ArgCodec'',
      call_no_args = Inl (TypeError ''__init__() missing 1 required positional argument'')\<rparr>"

subsection \<open>Dtc\<close>

record dtc =
  dtc_id :: int
  testFailed :: bool
  testFailedThisOperationCycle :: bool
  pending :: bool
  confirmed :: bool
  testNotCompletedSinceLastClear :: bool
  testFailedSinceLastClear :: bool
  testNotCompletedThisOperationCycle :: bool
  warningIndicatorRequested :: bool

text \<open>
  \<^verbatim>\<open>Dtc.__init__\<close> (lines 414-425): the parameter is named \<^verbatim>\<open>dtc\<close> and line 416 reads
  \<^verbatim>\<open>dtcid\<close>, a name bound nowhere, so the constructor raises \<^verbatim>\<open>NameError\<close>.
\<close>

definition Dtc_init :: "int \<Rightarrow> error + dtc" where
  "Dtc_init d = Inl (NameError ''dtcid'')"

text \<open>
  The getter of the property \<^verbatim>\<open>status\<close> (lines 452-462). \<open>status_byte\<close> is the value
  of the local variable \<^verbatim>\<open>byte\<close> after line 462. The body ends there, without a
  \<^verbatim>\<open>return\<close>, so reading the property gives \<^verbatim>\<open>None\<close>.
\<close>

definition status_byte :: "dtc \<Rightarrow> int" where
  "status_byte self =
     (let byte = 0;
          byte = byte OR (if testFailed self then 0x1 else 0);
          byte = byte OR (if testFailedThisOperationCycle self then 0x2 else 0);
          byte = byte OR (if pending self then 0x4 else 0);
          byte = byte OR (if confirmed self then 0x8 else 0);
          byte = byte OR (if testNotCompletedSinceLastClear self then 0x10 else 0);
          byte = byte OR (if testFailedSinceLastClear self then 0x20 else 0);
          byte = byte OR (if testNotCompletedThisOperationCycle self then 0x40 else 0);
          byte = byte OR (if warningIndicatorRequested self then 0x80 else 0)
      in byte)"

definition status :: "dtc \<Rightarrow> int option" where
  "status self = (let byte = status_byte self in None)"

text \<open>The setter of the property \<^verbatim>\<open>status\<close> (lines 464-473).\<close>

definition status_setter :: "dtc \<Rightarrow> int \<Rightarrow> dtc" where
  "status_setter self byte =
     self\<lparr>testFailed := (byte AND 0x01 > 0),
          testFailedThisOperationCycle := (byte AND 0x02 > 0),
          pending := (byte AND 0x04 > 0),
          confirmed := (byte AND 0x08 > 0),
          testNotCompletedSinceLastClear := (byte AND 0x10 > 0),
          testFailedSinceLastClear := (byte AND 0x20 > 0),
          testNotCompletedThisOperationCycle := (byte AND 0x40 > 0),
          warningIndicatorRequested := (byte AND 0x80 > 0)\<rparr>"

text \<open>
  \<^verbatim>\<open>Dtc.updateStatus\<close> (lines 427-450). The signature has seven parameters: no
  \<^verbatim>\<open>self\<close> and no \<^verbatim>\<open>testNotCompletedThisOperationCycle\<close>. A parameter holds \<^verbatim>\<open>None\<close>
  (its default), a boolean, or the object the method was called on.
\<close>

datatype pyarg =
    ArgNone
  | ArgBool bool
  | ArgDtc dtc

text \<open>
  The body, on the values of its seven parameters. Each assignment \<^verbatim>\<open>self.x = x\<close>
  evaluates the name \<^verbatim>\<open>self\<close>, which is neither a parameter nor a name of the module:
  \<^verbatim>\<open>NameError\<close>. When no assignment is reached before it, line 446 evaluates the name
  \<^verbatim>\<open>testNotCompletedThisOperationCycle\<close>, unbound as well.
\<close>

definition updateStatus_body ::
  "pyarg \<Rightarrow> pyarg \<Rightarrow> pyarg \<Rightarrow> pyarg \<Rightarrow> pyarg \<Rightarrow> pyarg \<Rightarrow> pyarg \<Rightarrow> error + unit" where
  "updateStatus_body testFailed_a testFailedThisOperationCycle_a pending_a confirmed_a
       testNotCompletedSinceLastClear_a testFailedSinceLastClear_a warningIndicatorRequested_a =
     (if testFailed_a \<noteq> ArgNone then Inl (NameError ''self'')
      else if testFailedThisOperationCycle_a \<noteq> ArgNone then Inl (NameError ''self'')
      else if pending_a \<noteq> ArgNone then Inl (NameError ''self'')
      else if confirmed_a \<noteq> ArgNone then Inl (NameError ''self'')
      else if testNotCompletedSinceLastClear_a \<noteq> ArgNone then Inl (NameError ''self'')
      else if testFailedSinceLastClear_a \<noteq> ArgNone then Inl (NameError ''self'')
      else Inl (NameError ''testNotCompletedThisOperationCycle''))"

text \<open>
  The call \<^verbatim>\<open>d.updateStatus(**kwargs)\<close> on an object \<open>d\<close>, with the supplied fields as
  keyword arguments. The bound method passes \<open>d\<close> as the first positional argument, which
  the signature calls \<^verbatim>\<open>testFailed\<close>. A keyword that is no parameter, and the keyword
  \<^verbatim>\<open>testFailed\<close>, already bound, are refused with \<^verbatim>\<open>TypeError\<close> before the body runs.
  The result is the object after the call.
\<close>

definition updateStatus_params :: "string list" where
  "updateStatus_params =
     [''testFailed'', ''testFailedThisOperationCycle'', ''pending'', ''confirmed'',
      ''testNotCompletedSinceLastClear'', ''testFailedSinceLastClear'',
      ''warningIndicatorRequested'']"

definition keyword_arg :: "(string \<times> bool) list \<Rightarrow> string \<Rightarrow> pyarg" where
  "keyword_arg kwargs k = (case map_of kwargs k of None \<Rightarrow> ArgNone | Some v \<Rightarrow> ArgBool v)"

definition updateStatus :: "dtc \<Rightarrow> (string \<times> bool) list \<Rightarrow> error + dtc" where
  "updateStatus d kwargs =
     (if list_ex (\<lambda>kv. fst kv \<notin> set updateStatus_params) kwargs
      then Inl (TypeError ''updateStatus() got an unexpected keyword argument'')
      else if list_ex (\<lambda>kv. fst kv = ''testFailed'') kwargs
      then Inl (TypeError ''updateStatus() got multiple values for argument testFailed'')
      else
        (case updateStatus_body (ArgDtc d)
                (keyword_arg kwargs ''testFailedThisOperationCycle'')
                (keyword_arg kwargs ''pending'')
                (keyword_arg kwargs ''confirmed'')
                (keyword_arg kwargs ''testNotCompletedSinceLastClear'')
                (keyword_arg kwargs ''testFailedSinceLastClear'')
                (keyword_arg kwargs ''warningIndicatorRequested'') of
           Inl e \<Rightarrow> Inl e
         | Inr u \<Rightarrow> Inr d))"

subsection \<open>Predicates and example values used by the statements\<close>

text \<open>
  The malformed payloads that the description of \<^verbatim>\<open>Response.from_payload\<close> lists: the
  empty payload, an unknown service ID at byte 0, a 1-byte payload for a service that
  declares response data, and a 2-byte payload whose byte 1 is the marker \<open>0x7F\<close>.
\<close>

definition malformed :: "registry \<Rightarrow> byte list \<Rightarrow> bool" where
  "malformed reg payload =
     (payload = [] \<or>
      (length payload \<ge> 1 \<and> cls_from_response_id reg (uint (payload ! 0)) = None) \<or>
      (length payload = 1 \<and>
         (case cls_from_response_id reg (uint (payload ! 0)) of
            None \<Rightarrow> False
          | Some s \<Rightarrow> has_response_data s)) \<or>
      (length payload = 2 \<and> payload ! 1 = 0x7F))"

text \<open>The service descriptor behind the attribute \<^verbatim>\<open>service\<close>, when it holds one.\<close>

fun descriptor :: "service_val \<Rightarrow> service_desc option" where
  "descriptor SvcNone = None"
| "descriptor (SvcClass s) = Some s"
| "descriptor (SvcInstance s) = Some s"

text \<open>Three services for the concrete inputs, with the IDs ISO 14229 gives them.\<close>

definition ReadDataByIdentifier :: service_desc where
  "ReadDataByIdentifier =
     \<lparr>get_name = ''ReadDataByIdentifier'', request_id = 0x22, response_id = 0x62,
      use_subfunction = False, has_response_data = True\<rparr>"

definition ECUReset :: service_desc where
  "ECUReset =
     \<lparr>get_name = ''ECUReset'', request_id = 0x11, response_id = 0x51,
      use_subfunction = True, has_response_data = True\<rparr>"

definition TesterPresent :: service_desc where
  "TesterPresent =
     \<lparr>get_name = ''TesterPresent'', request_id = 0x3E, response_id = 0x7E,
      use_subfunction = True, has_response_data = False\<rparr>"

definition example_registry :: registry where
  "example_registry = [ReadDataByIdentifier, ECUReset, TesterPresent]"

text \<open>
  Serialising an object and parsing the payload again; a \<^verbatim>\<open>raise\<close> of \<^verbatim>\<open>get_payload\<close>
  ends the round trip.
\<close>

definition Response_roundtrip :: "registry \<Rightarrow> response \<Rightarrow> error + response" where
  "Response_roundtrip reg r =
     (case Response_get_payload r of
        Inl e \<Rightarrow> Inl e
      | Inr payload \<Rightarrow> Response_from_payload reg payload)"

definition Request_roundtrip :: "registry \<Rightarrow> request \<Rightarrow> error + request" where
  "Request_roundtrip reg r =
     (case Request_get_payload r of
        Inl e \<Rightarrow> Inl e
      | Inr payload \<Rightarrow> Inr (Request_from_payload reg payload))"

text \<open>
  A well-formed Response in the words of the round-trip property: its service is
  resolvable in the registry (by a response ID that is a byte), its code is a valid byte,
  and its data is absent or permitted by the service.
\<close>

definition well_formed_response :: "registry \<Rightarrow> response \<Rightarrow> bool" where
  "well_formed_response reg r =
     (case descriptor (service r) of
        None \<Rightarrow> False
      | Some s \<Rightarrow>
          0 \<le> response_id s \<and> response_id s \<le> 255 \<and>
          cls_from_response_id reg (response_id s) = Some s \<and>
          (case code r of None \<Rightarrow> False | Some c \<Rightarrow> 0 \<le> c \<and> c \<le> 255) \<and>
          (case data r of None \<Rightarrow> True | Some d \<Rightarrow> has_response_data s))"

text \<open>
  What the wire format can carry back, beyond well-formedness: data that is present is not
  empty; a positive response has the code \<^verbatim>\<open>PositiveResponse\<close>, carries data exactly when
  its service declares response data, and its data does not begin with the marker
  \<open>0x7F\<close>.
\<close>

definition representable_response :: "response \<Rightarrow> bool" where
  "representable_response r =
     ((case data r of None \<Rightarrow> True | Some d \<Rightarrow> d \<noteq> []) \<and>
      (if positive r
       then code r = Some PositiveResponse \<and>
            (case data r of
               None \<Rightarrow> (case descriptor (service r) of
                          None \<Rightarrow> False
                        | Some s \<Rightarrow> \<not> has_response_data s)
             | Some d \<Rightarrow> (case d of [] \<Rightarrow> False | b # bs \<Rightarrow> b \<noteq> 0x7F))
       else True))"

text \<open>
  A well-formed Request in the words of the round-trip property: its service is a
  registered service class (resolvable by a request ID that is a byte), and its
  subfunction is a valid byte when the service uses one.
\<close>

definition well_formed_request :: "registry \<Rightarrow> request \<Rightarrow> bool" where
  "well_formed_request reg r =
     (case request.service r of
        SvcClass s \<Rightarrow>
          0 \<le> request_id s \<and> request_id s \<le> 255 \<and>
          cls_from_request_id reg (request_id s) = Some s \<and>
          (if use_subfunction s
           then (case subfunction r of None \<Rightarrow> False | Some sf \<Rightarrow> 0 \<le> sf \<and> sf \<le> 255)
           else True)
      | _ \<Rightarrow> False)"

text \<open>
  What the wire format can carry back, beyond well-formedness: a subfunction below
  \<open>0x80\<close> (bit 7 of its byte is the suppress flag); no subfunction and no suppress flag
  when the service has no subfunction byte; data that is absent or a non-empty \<^verbatim>\<open>bytes\<close>
  object.
\<close>

definition representable_request :: "request \<Rightarrow> bool" where
  "representable_request r =
     ((case request.data r of PyNone \<Rightarrow> True | PyBytes d \<Rightarrow> d \<noteq> [] | _ \<Rightarrow> False) \<and>
      (case request.service r of
         SvcClass s \<Rightarrow>
           if use_subfunction s
           then (case subfunction r of None \<Rightarrow> False | Some sf \<Rightarrow> sf < 0x80)
           else subfunction r = None \<and> \<not> suppress_positive_response r
       | _ \<Rightarrow> False))"

section \<open>Properties\<close>

subsection \<open>Helper facts\<close>

lemma Response_init_default:
  "Response_init (Service SvcNone) PyNone PyNone =
     Inr \<lparr>service = SvcNone, positive = False, code = None, code_name = '''',
          data = None, valid = False, invalid_reason = ''Object not initialized''\<rparr>"
  by (simp add: Response_init_def)

lemmas example_defs =
  example_registry_def ReadDataByIdentifier_def ECUReset_def TesterPresent_def

lemma uint_byte_of_int: "0 \<le> i \<Longrightarrow> i \<le> 255 \<Longrightarrow> uint (word_of_int i :: byte) = i"
  by (simp add: uint_word_of_int take_bit_int_eq_self)

lemma and_0x80_low:
  assumes "0 \<le> s" "s < 128"
  shows "(s::int) AND 0x80 = 0"
proof -
  from assms have "take_bit 7 s = s" by (simp add: take_bit_int_eq_self)
  moreover have "take_bit n s AND push_bit n 1 = 0" for n
    by (rule bit_eqI) (auto simp: bit_simps)
  from this [of 7] have "take_bit 7 s AND push_bit 7 1 = 0" .
  moreover have "push_bit 7 (1::int) = 0x80"
    by (simp add: push_bit_eq_mult)
  ultimately show ?thesis by simp
qed

lemma and_0x7F_low:
  assumes "0 \<le> s" "s < 128"
  shows "(s::int) AND 0x7F = s"
proof -
  have "s AND mask 7 = take_bit 7 s" by (simp add: take_bit_eq_mask)
  with assms show ?thesis by (simp add: take_bit_int_eq_self mask_numeral)
qed

lemma or_0x80_low:
  assumes "0 \<le> s" "s < 128"
  shows "(s::int) OR 0x80 = s + 128"
  using plus_and_or [of s 128] and_0x80_low [OF assms] by simp

lemma suppress_bit_set:
  assumes "0 \<le> s" "s < 128"
  shows "((s::int) OR 0x80) AND 0x7F = s" and "((s::int) OR 0x80) AND 0x80 > 0"
proof -
  have "(s OR 0x80) AND 0x7F = (s AND 0x7F) OR (0x80 AND 0x7F)"
    by (simp add: bit.conj_disj_distrib2)
  then show "((s::int) OR 0x80) AND 0x7F = s"
    using and_0x7F_low [OF assms] by simp
  have "(s OR 0x80) AND 0x80 = (s AND 0x80) OR (0x80 AND 0x80)"
    by (simp add: bit.conj_disj_distrib2)
  then show "((s::int) OR 0x80) AND 0x80 > 0"
    using and_0x80_low [OF assms] by simp
qed

text \<open>
  The subfunction byte as \<^verbatim>\<open>Request.get_payload\<close> packs it and as
  \<^verbatim>\<open>Request.from_payload\<close> reads it back.
\<close>

lemma subfunction_byte_roundtrip:
  assumes "0 \<le> sf" "sf < 0x80"
  shows "\<exists>b. struct_pack_B (if suppress then sf OR 0x80 else sf) = Inr [b] \<and>
             uint b AND 0x7F = sf \<and> (uint b AND 0x80 > 0) = suppress"
proof (cases suppress)
  case True
  define v where "v = sf OR 0x80"
  from or_0x80_low [OF assms] assms have range: "0 \<le> v" "v \<le> 255"
    by (simp_all add: v_def)
  then have "struct_pack_B v = Inr [word_of_int v]"
    by (simp add: struct_pack_B_def)
  moreover have "uint (word_of_int v :: byte) = v"
    using range by (rule uint_byte_of_int)
  moreover have "v AND 0x7F = sf" "v AND 0x80 > 0"
    using suppress_bit_set [OF assms] by (simp_all add: v_def)
  ultimately show ?thesis
    using True by (simp add: v_def)
next
  case False
  from assms have range: "0 \<le> sf" "sf \<le> 255" by simp_all
  then have "struct_pack_B sf = Inr [word_of_int sf]"
    by (simp add: struct_pack_B_def)
  moreover have "uint (word_of_int sf :: byte) = sf"
    using range by (rule uint_byte_of_int)
  ultimately show ?thesis
    using False and_0x7F_low [OF assms] and_0x80_low [OF assms] by simp
qed

lemma find_no_member:
  "c \<notin> snd ` set Code_members \<Longrightarrow> find (\<lambda>member. snd member = c) Code_members = None"
  by (force simp: find_None_iff)

lemma descriptor_case:
  "descriptor sv = Some s \<Longrightarrow>
   (case sv of
      SvcNone \<Rightarrow> Inl (TypeError ''issubclass() arg 1 must be a class'')
    | SvcClass s \<Rightarrow> Inr s
    | SvcInstance s \<Rightarrow> Inr s) = Inr s"
  by (cases sv) simp_all

subsection \<open>Parsing a response never fails\<close>

text \<open>
  Claim C1. For every byte sequence, \<^verbatim>\<open>Response.from_payload\<close> returns a Response object
  and raises nothing; and whenever the payload is malformed (it is empty, its byte 0 is no
  known service ID, it has one byte and the service declares response data, or it has two
  bytes and byte 1 is the marker \<open>0x7F\<close>), the object returned has \<^verbatim>\<open>valid\<close> false and a
  non-empty \<^verbatim>\<open>invalid_reason\<close>.
\<close>

theorem from_payload_never_raises:
  "\<exists>r. Response_from_payload reg payload = Inr r \<and>
       (malformed reg payload \<longrightarrow> \<not> valid r \<and> invalid_reason r \<noteq> '''')"
proof (cases payload)
  case Nil
  then show ?thesis by (simp add: Response_from_payload_def Response_init_default)
next
  case (Cons b0 rest)
  show ?thesis
  proof (cases "cls_from_response_id reg (uint b0)")
    case None
    with Cons show ?thesis by (simp add: Response_from_payload_def Response_init_default)
  next
    case (Some s)
    show ?thesis
    proof (cases rest)
      case Nil
      with Cons Some show ?thesis
        by (cases "has_response_data s")
           (simp_all add: Response_from_payload_def Response_init_default malformed_def)
    next
      case (Cons b1 rest')
      with \<open>payload = b0 # rest\<close> Some show ?thesis
        by (cases rest')
           (simp_all add: Response_from_payload_def Response_init_default malformed_def Let_def)
    qed
  qed
qed

text \<open>
  The theorem at the four malformed shapes, in the example registry: the empty payload,
  the unknown service ID \<open>0x7F\<close>, the single byte \<open>0x62\<close> of a service with response
  data, and \<open>0x62 0x7F\<close> with no code byte.
\<close>

theorem from_payload_never_raises_witness:
  "malformed example_registry [] \<and>
   (\<exists>r. Response_from_payload example_registry [] = Inr r \<and>
        \<not> valid r \<and> invalid_reason r \<noteq> '''') \<and>
   malformed example_registry [0x7F, 0x22, 0x31] \<and>
   (\<exists>r. Response_from_payload example_registry [0x7F, 0x22, 0x31] = Inr r \<and>
        \<not> valid r \<and> invalid_reason r \<noteq> '''') \<and>
   malformed example_registry [0x62] \<and>
   (\<exists>r. Response_from_payload example_registry [0x62] = Inr r \<and>
        \<not> valid r \<and> invalid_reason r \<noteq> '''') \<and>
   malformed example_registry [0x62, 0x7F] \<and>
   (\<exists>r. Response_from_payload example_registry [0x62, 0x7F] = Inr r \<and>
        \<not> valid r \<and> invalid_reason r \<noteq> '''')"
proof -
  have m0: "malformed example_registry []"
    by (simp add: malformed_def)
  have m1: "malformed example_registry [0x7F, 0x22, 0x31]"
    by (simp add: malformed_def cls_from_response_id_def example_registry_def
        ReadDataByIdentifier_def ECUReset_def TesterPresent_def)
  have m2: "malformed example_registry [0x62]"
    by (simp add: malformed_def cls_from_response_id_def example_registry_def
        ReadDataByIdentifier_def ECUReset_def TesterPresent_def)
  have m3: "malformed example_registry [0x62, 0x7F]"
    by (simp add: malformed_def)
  from from_payload_never_raises [of example_registry "[]"] m0
  have r0: "\<exists>r. Response_from_payload example_registry [] = Inr r \<and>
        \<not> valid r \<and> invalid_reason r \<noteq> ''''" by blast
  from from_payload_never_raises [of example_registry "[0x7F, 0x22, 0x31]"] m1
  have r1: "\<exists>r. Response_from_payload example_registry [0x7F, 0x22, 0x31] = Inr r \<and>
        \<not> valid r \<and> invalid_reason r \<noteq> ''''" by blast
  from from_payload_never_raises [of example_registry "[0x62]"] m2
  have r2: "\<exists>r. Response_from_payload example_registry [0x62] = Inr r \<and>
        \<not> valid r \<and> invalid_reason r \<noteq> ''''" by blast
  from from_payload_never_raises [of example_registry "[0x62, 0x7F]"] m3
  have r3: "\<exists>r. Response_from_payload example_registry [0x62, 0x7F] = Inr r \<and>
        \<not> valid r \<and> invalid_reason r \<noteq> ''''" by blast
  from m0 r0 m1 r1 m2 r2 m3 r3 show ?thesis by blast
qed

subsection \<open>The round trip of a response\<close>

text \<open>
  Claim C2, as stated: for every well-formed Response (service resolvable in the registry,
  code a valid byte, data absent or permitted by the service), parsing its payload gives
  back the same service, positive flag, code and data. It fails for the response that
  \<^verbatim>\<open>Response(ReadDataByIdentifier, code=0)\<close> builds: positive, without data, for a
  service that declares response data. Its payload is the single byte \<open>0x62\<close>, which
  \<^verbatim>\<open>from_payload\<close> refuses as too short: the result is not positive and has no code.
\<close>

theorem positive_without_data_counterexample:
  "Response_init (Service (SvcClass ReadDataByIdentifier)) (PyInt 0) PyNone =
     Inr \<lparr>service = SvcClass ReadDataByIdentifier, positive = True, code = Some 0,
          code_name = ''PositiveResponse'', data = None, valid = True, invalid_reason = ''''\<rparr> \<and>
   well_formed_response example_registry
     \<lparr>service = SvcClass ReadDataByIdentifier, positive = True, code = Some 0,
      code_name = ''PositiveResponse'', data = None, valid = True, invalid_reason = ''''\<rparr> \<and>
   Response_get_payload
     \<lparr>service = SvcClass ReadDataByIdentifier, positive = True, code = Some 0,
      code_name = ''PositiveResponse'', data = None, valid = True, invalid_reason = ''''\<rparr> =
     Inr [0x62] \<and>
   Response_roundtrip example_registry
     \<lparr>service = SvcClass ReadDataByIdentifier, positive = True, code = Some 0,
      code_name = ''PositiveResponse'', data = None, valid = True, invalid_reason = ''''\<rparr> =
     Inr \<lparr>service = SvcClass ReadDataByIdentifier, positive = False, code = None,
          code_name = '''', data = None, valid = False,
          invalid_reason = ''Payload must be at least 2 bytes long (service and response)''\<rparr>"
  by (simp add: Response_init_def Code_is_negative_def Code_get_name_def Code_members_def
      PositiveResponse_def well_formed_response_def Response_roundtrip_def
      Response_get_payload_def Response_from_payload_def struct_pack_B_def
      cls_from_response_id_def example_defs)

text \<open>
  Three more well-formed responses that the wire format does not carry back: positive data
  that begins with \<open>0x7F\<close> is read as a negative response; a positive response built
  with the unregistered code \<open>0x20\<close> comes back with code 0; empty data comes back
  absent.
\<close>

lemma positive_data_with_marker_comes_back_negative:
  "well_formed_response example_registry
     \<lparr>service = SvcClass ReadDataByIdentifier, positive = True, code = Some 0,
      code_name = ''PositiveResponse'', data = Some [0x7F, 0x31], valid = True,
      invalid_reason = ''''\<rparr> \<and>
   Response_roundtrip example_registry
     \<lparr>service = SvcClass ReadDataByIdentifier, positive = True, code = Some 0,
      code_name = ''PositiveResponse'', data = Some [0x7F, 0x31], valid = True,
      invalid_reason = ''''\<rparr> =
     Inr \<lparr>service = SvcClass ReadDataByIdentifier, positive = False, code = Some 0x31,
          code_name = ''RequestOutOfRange'', data = None, valid = True,
          invalid_reason = ''Object not initialized''\<rparr>"
  by (simp add: Response_init_def Code_get_name_def Code_members_def
      PositiveResponse_def well_formed_response_def Response_roundtrip_def
      Response_get_payload_def Response_from_payload_def struct_pack_B_def
      cls_from_response_id_def example_defs)

lemma positive_code_comes_back_zero:
  "well_formed_response example_registry
     \<lparr>service = SvcClass ReadDataByIdentifier, positive = True, code = Some 0x20,
      code_name = ''32'', data = Some [0x01], valid = True, invalid_reason = ''''\<rparr> \<and>
   Response_roundtrip example_registry
     \<lparr>service = SvcClass ReadDataByIdentifier, positive = True, code = Some 0x20,
      code_name = ''32'', data = Some [0x01], valid = True, invalid_reason = ''''\<rparr> =
     Inr \<lparr>service = SvcClass ReadDataByIdentifier, positive = True, code = Some 0,
          code_name = ''PositiveResponse'', data = Some [0x01], valid = True,
          invalid_reason = ''Object not initialized''\<rparr>"
  by (simp add: Response_init_def Code_get_name_def Code_members_def
      PositiveResponse_def well_formed_response_def Response_roundtrip_def
      Response_get_payload_def Response_from_payload_def struct_pack_B_def
      cls_from_response_id_def example_defs)

lemma empty_response_data_comes_back_absent:
  "well_formed_response example_registry
     \<lparr>service = SvcClass ReadDataByIdentifier, positive = False, code = Some 0x31,
      code_name = ''RequestOutOfRange'', data = Some [], valid = True, invalid_reason = ''''\<rparr> \<and>
   Response_roundtrip example_registry
     \<lparr>service = SvcClass ReadDataByIdentifier, positive = False, code = Some 0x31,
      code_name = ''RequestOutOfRange'', data = Some [], valid = True, invalid_reason = ''''\<rparr> =
     Inr \<lparr>service = SvcClass ReadDataByIdentifier, positive = False, code = Some 0x31,
          code_name = ''RequestOutOfRange'', data = None, valid = True,
          invalid_reason = ''Object not initialized''\<rparr>"
  by (simp add: Response_init_def Code_get_name_def Code_members_def
      PositiveResponse_def well_formed_response_def Response_roundtrip_def
      Response_get_payload_def Response_from_payload_def struct_pack_B_def
      cls_from_response_id_def example_defs)

text \<open>
  Claim C2, amended: for every well-formed Response whose data, when present, is not empty,
  and which, when positive, has the code \<^verbatim>\<open>PositiveResponse\<close>, carries data exactly when
  its service declares response data, and has data that does not begin with \<open>0x7F\<close>,
  \<^verbatim>\<open>get_payload\<close> succeeds and \<^verbatim>\<open>from_payload\<close> of the payload returns a Response with
  the same service, the same positive flag, the same code and the same data. Every
  well-formed negative Response with absent or non-empty data is among them.
\<close>

theorem response_payload_reparsed:
  assumes wf: "well_formed_response reg r" and rep: "representable_response r"
  shows "\<exists>r'. Response_roundtrip reg r = Inr r' \<and>
              descriptor (service r') = descriptor (service r) \<and>
              positive r' = positive r \<and> code r' = code r \<and> data r' = data r"
proof -
  from wf obtain s where s: "descriptor (service r) = Some s"
    by (auto simp: well_formed_response_def split: option.splits)
  from wf s have rid: "0 \<le> response_id s" "response_id s \<le> 255"
    and look: "cls_from_response_id reg (response_id s) = Some s"
    by (simp_all add: well_formed_response_def)
  from wf s obtain c where c: "code r = Some c" "0 \<le> c" "c \<le> 255"
    by (auto simp: well_formed_response_def split: option.splits)
  have pack: "struct_pack_B (response_id s) = Inr [word_of_int (response_id s)]"
    using rid by (simp add: struct_pack_B_def)
  have rd: "uint (word_of_int (response_id s) :: byte) = response_id s"
    using rid by (rule uint_byte_of_int)
  have packc: "struct_pack_B c = Inr [word_of_int c]"
    using c by (simp add: struct_pack_B_def)
  have rdc: "uint (word_of_int c :: byte) = c"
    using c(2,3) by (rule uint_byte_of_int)
  note svc = descriptor_case [OF s]
  show ?thesis
  proof (cases "positive r")
    case True
    with rep c have c0: "code r = Some PositiveResponse"
      by (simp add: representable_response_def)
    show ?thesis
    proof (cases "data r")
      case None
      with rep True s have "\<not> has_response_data s"
        by (simp add: representable_response_def)
      with None True s c0 pack rd look svc show ?thesis
        by (simp add: Response_roundtrip_def Response_get_payload_def Response_from_payload_def
            Response_init_default)
    next
      case (Some d)
      with rep True obtain b bs where d: "d = b # bs" "b \<noteq> 0x7F"
        by (auto simp: representable_response_def split: list.splits)
      from wf s Some have "has_response_data s"
        by (simp add: well_formed_response_def)
      with Some True s c0 d pack rd look svc show ?thesis
        by (simp add: Response_roundtrip_def Response_get_payload_def Response_from_payload_def
            Response_init_default)
    qed
  next
    case False
    show ?thesis
    proof (cases "data r")
      case None
      with False s c packc rdc pack rd look svc show ?thesis
        by (simp add: Response_roundtrip_def Response_get_payload_def Response_from_payload_def
            Response_init_default)
    next
      case (Some d)
      with rep have "d \<noteq> []" by (simp add: representable_response_def)
      then have len: "0 < length d" by simp
      from wf s Some have "has_response_data s"
        by (simp add: well_formed_response_def)
      with Some False s c packc rdc pack rd look svc len show ?thesis
        by (simp add: Response_roundtrip_def Response_get_payload_def Response_from_payload_def
            Response_init_default)
    qed
  qed
qed

text \<open>
  The theorem at a negative response that carries data and at a positive response of a
  service without response data.
\<close>

theorem response_payload_reparsed_witness:
  "well_formed_response example_registry
     \<lparr>service = SvcClass ReadDataByIdentifier, positive = False, code = Some 0x31,
      code_name = ''RequestOutOfRange'', data = Some [0xAA], valid = True, invalid_reason = ''''\<rparr> \<and>
   representable_response
     \<lparr>service = SvcClass ReadDataByIdentifier, positive = False, code = Some 0x31,
      code_name = ''RequestOutOfRange'', data = Some [0xAA], valid = True, invalid_reason = ''''\<rparr> \<and>
   (\<exists>r'. Response_roundtrip example_registry
            \<lparr>service = SvcClass ReadDataByIdentifier, positive = False, code = Some 0x31,
             code_name = ''RequestOutOfRange'', data = Some [0xAA], valid = True,
             invalid_reason = ''''\<rparr> = Inr r' \<and>
         descriptor (service r') = Some ReadDataByIdentifier \<and>
         positive r' = False \<and> code r' = Some 0x31 \<and> data r' = Some [0xAA]) \<and>
   well_formed_response example_registry
     \<lparr>service = SvcClass TesterPresent, positive = True, code = Some 0,
      code_name = ''PositiveResponse'', data = None, valid = True, invalid_reason = ''''\<rparr> \<and>
   representable_response
     \<lparr>service = SvcClass TesterPresent, positive = True, code = Some 0,
      code_name = ''PositiveResponse'', data = None, valid = True, invalid_reason = ''''\<rparr> \<and>
   (\<exists>r'. Response_roundtrip example_registry
            \<lparr>service = SvcClass TesterPresent, positive = True, code = Some 0,
             code_name = ''PositiveResponse'', data = None, valid = True,
             invalid_reason = ''''\<rparr> = Inr r' \<and>
         descriptor (service r') = Some TesterPresent \<and>
         positive r' = True \<and> code r' = Some 0 \<and> data r' = None)"
proof -
  let ?n = "\<lparr>service = SvcClass ReadDataByIdentifier, positive = False, code = Some 0x31,
      code_name = ''RequestOutOfRange'', data = Some [0xAA], valid = True, invalid_reason = ''''\<rparr>"
  let ?p = "\<lparr>service = SvcClass TesterPresent, positive = True, code = Some 0,
      code_name = ''PositiveResponse'', data = None, valid = True, invalid_reason = ''''\<rparr>"
  have wn: "well_formed_response example_registry ?n"
    by (simp add: well_formed_response_def cls_from_response_id_def example_defs)
  have rn: "representable_response ?n"
    by (simp add: representable_response_def)
  have wp: "well_formed_response example_registry ?p"
    by (simp add: well_formed_response_def cls_from_response_id_def example_defs)
  have rp: "representable_response ?p"
    by (simp add: representable_response_def PositiveResponse_def TesterPresent_def)
  from response_payload_reparsed [OF wn rn] response_payload_reparsed [OF wp rp] wn rn wp rp
  show ?thesis by simp
qed

subsection \<open>The round trip of a request\<close>

text \<open>
  Claim C3, as stated: for every well-formed Request (service a registered service,
  subfunction a valid byte when the service uses one), parsing its payload gives back the
  same service, subfunction, suppress flag and data. It fails for the request of
  \<^verbatim>\<open>ECUReset\<close> with the subfunction \<open>0x81\<close>, a valid byte, and the suppress flag
  unset: \<^verbatim>\<open>from_payload\<close> reads bit 7 of the subfunction byte as the suppress flag and
  keeps the low seven bits, so the subfunction comes back as 1 and the flag as set.
\<close>

theorem subfunction_high_bit_counterexample:
  "well_formed_request example_registry
     \<lparr>request.service = SvcClass ECUReset, subfunction = Some 0x81,
      suppress_positive_response = False, request.data = PyNone\<rparr> \<and>
   Request_get_payload
     \<lparr>request.service = SvcClass ECUReset, subfunction = Some 0x81,
      suppress_positive_response = False, request.data = PyNone\<rparr> = Inr [0x11, 0x81] \<and>
   Request_roundtrip example_registry
     \<lparr>request.service = SvcClass ECUReset, subfunction = Some 0x81,
      suppress_positive_response = False, request.data = PyNone\<rparr> =
     Inr \<lparr>request.service = SvcClass ECUReset, subfunction = Some 1,
          suppress_positive_response = True, request.data = PyNone\<rparr>"
  by (simp add: well_formed_request_def Request_roundtrip_def Request_get_payload_def
      Request_from_payload_def Request_default_def struct_pack_B_def
      cls_from_request_id_def example_defs)

text \<open>
  Two more well-formed requests that the wire format does not carry back: the suppress
  flag of a request whose service has no subfunction byte is not serialised, and empty
  data comes back absent.
\<close>

lemma suppress_flag_lost_without_subfunction:
  "well_formed_request example_registry
     \<lparr>request.service = SvcClass ReadDataByIdentifier, subfunction = None,
      suppress_positive_response = True, request.data = PyBytes [0xF1, 0x90]\<rparr> \<and>
   Request_roundtrip example_registry
     \<lparr>request.service = SvcClass ReadDataByIdentifier, subfunction = None,
      suppress_positive_response = True, request.data = PyBytes [0xF1, 0x90]\<rparr> =
     Inr \<lparr>request.service = SvcClass ReadDataByIdentifier, subfunction = None,
          suppress_positive_response = False, request.data = PyBytes [0xF1, 0x90]\<rparr>"
  by (simp add: well_formed_request_def Request_roundtrip_def Request_get_payload_def
      Request_from_payload_def Request_default_def struct_pack_B_def
      cls_from_request_id_def example_defs)

lemma empty_request_data_comes_back_absent:
  "well_formed_request example_registry
     \<lparr>request.service = SvcClass ECUReset, subfunction = Some 1,
      suppress_positive_response = False, request.data = PyBytes []\<rparr> \<and>
   Request_roundtrip example_registry
     \<lparr>request.service = SvcClass ECUReset, subfunction = Some 1,
      suppress_positive_response = False, request.data = PyBytes []\<rparr> =
     Inr \<lparr>request.service = SvcClass ECUReset, subfunction = Some 1,
          suppress_positive_response = False, request.data = PyNone\<rparr>"
  by (simp add: well_formed_request_def Request_roundtrip_def Request_get_payload_def
      Request_from_payload_def Request_default_def struct_pack_B_def
      cls_from_request_id_def example_defs)

text \<open>
  A request whose data is a \<^verbatim>\<open>str\<close>, the only type of data the constructor accepts, has
  no payload: appending it to the packed bytes raises \<^verbatim>\<open>TypeError\<close>.
\<close>

lemma request_str_data_raises:
  "Request_get_payload
     \<lparr>request.service = SvcClass ReadDataByIdentifier, subfunction = None,
      suppress_positive_response = False, request.data = PyStr ''ab''\<rparr> =
     Inl (TypeError ''cannot concat to bytes'')"
  by (simp add: Request_get_payload_def struct_pack_B_def ReadDataByIdentifier_def)

text \<open>
  Claim C3, amended: for every well-formed Request whose subfunction is below \<open>0x80\<close>
  when its service uses one, whose subfunction is absent and whose suppress flag is unset
  when its service uses none, and whose data is absent or a non-empty byte sequence,
  \<^verbatim>\<open>get_payload\<close> succeeds and \<^verbatim>\<open>from_payload\<close> of the payload returns a Request with the
  same service, the same subfunction, the same suppress flag and the same data: the same
  object.
\<close>

theorem request_payload_reparsed:
  assumes wf: "well_formed_request reg r" and rep: "representable_request r"
  shows "Request_roundtrip reg r = Inr r"
proof -
  from wf obtain s where s: "request.service r = SvcClass s"
    by (auto simp: well_formed_request_def split: service_val.splits)
  from wf s have rid: "0 \<le> request_id s" "request_id s \<le> 255"
    and look: "cls_from_request_id reg (request_id s) = Some s"
    by (simp_all add: well_formed_request_def)
  have pack: "struct_pack_B (request_id s) = Inr [word_of_int (request_id s)]"
    using rid by (simp add: struct_pack_B_def)
  have rd: "uint (word_of_int (request_id s) :: byte) = request_id s"
    using rid by (rule uint_byte_of_int)
  from rep consider (absent) "request.data r = PyNone"
    | (bytes) d where "request.data r = PyBytes d" "0 < length d"
    by (cases "request.data r") (simp_all add: representable_request_def)
  note data_cases = this
  show ?thesis
  proof (cases "use_subfunction s")
    case False
    with rep s have sub: "subfunction r = None" "\<not> suppress_positive_response r"
      by (simp_all add: representable_request_def)
    from data_cases show ?thesis
    proof cases
      case absent
      with s False sub pack rd look show ?thesis
        by (simp add: Request_roundtrip_def Request_get_payload_def Request_from_payload_def
            Request_default_def)
    next
      case bytes
      with s False sub pack rd look show ?thesis
        by (simp add: Request_roundtrip_def Request_get_payload_def Request_from_payload_def
            Request_default_def)
    qed
  next
    case True
    with wf rep s obtain sf where sf: "subfunction r = Some sf" "0 \<le> sf" "sf < 0x80"
      by (auto simp: well_formed_request_def representable_request_def split: option.splits)
    from subfunction_byte_roundtrip [OF sf(2,3), of "suppress_positive_response r"]
    obtain b where b:
      "struct_pack_B (if suppress_positive_response r then sf OR 0x80 else sf) = Inr [b]"
      "uint b AND 0x7F = sf" "(uint b AND 0x80 > 0) = suppress_positive_response r"
      by blast
    from data_cases show ?thesis
    proof cases
      case absent
      with s True sf b pack rd look show ?thesis
        by (simp add: Request_roundtrip_def Request_get_payload_def Request_from_payload_def
            Request_default_def)
    next
      case bytes
      with s True sf b pack rd look show ?thesis
        by (simp add: Request_roundtrip_def Request_get_payload_def Request_from_payload_def
            Request_default_def)
    qed
  qed
qed

text \<open>
  The theorem at a request with a subfunction, the suppress flag and data, and at a request
  of a service without subfunction.
\<close>

theorem request_payload_reparsed_witness:
  "well_formed_request example_registry
     \<lparr>request.service = SvcClass ECUReset, subfunction = Some 1,
      suppress_positive_response = True, request.data = PyBytes [5, 6]\<rparr> \<and>
   representable_request
     \<lparr>request.service = SvcClass ECUReset, subfunction = Some 1,
      suppress_positive_response = True, request.data = PyBytes [5, 6]\<rparr> \<and>
   Request_roundtrip example_registry
     \<lparr>request.service = SvcClass ECUReset, subfunction = Some 1,
      suppress_positive_response = True, request.data = PyBytes [5, 6]\<rparr> =
     Inr \<lparr>request.service = SvcClass ECUReset, subfunction = Some 1,
          suppress_positive_response = True, request.data = PyBytes [5, 6]\<rparr> \<and>
   well_formed_request example_registry
     \<lparr>request.service = SvcClass ReadDataByIdentifier, subfunction = None,
      suppress_positive_response = False, request.data = PyBytes [0xF1, 0x90]\<rparr> \<and>
   representable_request
     \<lparr>request.service = SvcClass ReadDataByIdentifier, subfunction = None,
      suppress_positive_response = False, request.data = PyBytes [0xF1, 0x90]\<rparr> \<and>
   Request_roundtrip example_registry
     \<lparr>request.service = SvcClass ReadDataByIdentifier, subfunction = None,
      suppress_positive_response = False, request.data = PyBytes [0xF1, 0x90]\<rparr> =
     Inr \<lparr>request.service = SvcClass ReadDataByIdentifier, subfunction = None,
          suppress_positive_response = False, request.data = PyBytes [0xF1, 0x90]\<rparr>"
proof -
  let ?a = "\<lparr>request.service = SvcClass ECUReset, subfunction = Some 1,
      suppress_positive_response = True, request.data = PyBytes [5, 6]\<rparr>"
  let ?b = "\<lparr>request.service = SvcClass ReadDataByIdentifier, subfunction = None,
      suppress_positive_response = False, request.data = PyBytes [0xF1, 0x90]\<rparr>"
  have wa: "well_formed_request example_registry ?a"
    by (simp add: well_formed_request_def cls_from_request_id_def example_defs)
  have ra: "representable_request ?a"
    by (simp add: representable_request_def ECUReset_def)
  have wb: "well_formed_request example_registry ?b"
    by (simp add: well_formed_request_def cls_from_request_id_def example_defs)
  have rb: "representable_request ?b"
    by (simp add: representable_request_def ReadDataByIdentifier_def)
  from request_payload_reparsed [OF wa ra] request_payload_reparsed [OF wb rb] wa ra wb rb
  show ?thesis by simp
qed

subsection \<open>The payload of a negative response\<close>

text \<open>
  Claim C4, as stated: the payload of a negative Response is exactly the three bytes
  response ID, \<open>0x7F\<close>, code, whatever its data and its service's
  \<^verbatim>\<open>has_response_data\<close>. It fails for the response that
  \<^verbatim>\<open>Response(ReadDataByIdentifier, code=0x31, data=b'\xAA')\<close> builds: the constructor
  accepts the data, the response is negative, and lines 307-308 append the data after the
  code byte, which gives four bytes.
\<close>

theorem negative_payload_counterexample:
  "Response_init (Service (SvcClass ReadDataByIdentifier)) (PyInt 0x31) (PyBytes [0xAA]) =
     Inr \<lparr>service = SvcClass ReadDataByIdentifier, positive = False, code = Some 0x31,
          code_name = ''RequestOutOfRange'', data = Some [0xAA], valid = True,
          invalid_reason = ''''\<rparr> \<and>
   Response_get_payload
     \<lparr>service = SvcClass ReadDataByIdentifier, positive = False, code = Some 0x31,
      code_name = ''RequestOutOfRange'', data = Some [0xAA], valid = True,
      invalid_reason = ''''\<rparr> = Inr [0x62, 0x7F, 0x31, 0xAA]"
  by (simp add: Response_init_def Code_is_negative_def Code_get_name_def Code_members_def
      PositiveResponse_def Response_get_payload_def struct_pack_B_def ReadDataByIdentifier_def)

text \<open>
  Claim C4, amended: for every negative Response whose service has a response ID that is a
  byte and whose code is a valid byte, \<^verbatim>\<open>get_payload\<close> returns the three bytes response
  ID, \<open>0x7F\<close>, code, followed by the data bytes when the Response carries data and its
  service declares response data; in every other case nothing follows the code byte.
\<close>

theorem negative_payload:
  assumes "descriptor (service r) = Some s"
    and "0 \<le> response_id s" and "response_id s \<le> 255"
    and "code r = Some c" and "0 \<le> c" and "c \<le> 255"
    and "\<not> positive r"
  shows "Response_get_payload r =
           Inr ([word_of_int (response_id s), 0x7F, word_of_int c] @
                (case data r of
                   None \<Rightarrow> []
                 | Some d \<Rightarrow> if has_response_data s then d else []))"
  using assms descriptor_case [OF assms(1)]
  by (simp add: Response_get_payload_def struct_pack_B_def split: option.splits)

text \<open>
  The theorem at three negative responses: without data, with data that the service
  permits, and with data set on a service that declares none.
\<close>

theorem negative_payload_witness:
  "Response_get_payload
     \<lparr>service = SvcClass ReadDataByIdentifier, positive = False, code = Some 0x31,
      code_name = ''RequestOutOfRange'', data = None, valid = True,
      invalid_reason = ''''\<rparr> = Inr [0x62, 0x7F, 0x31] \<and>
   Response_get_payload
     \<lparr>service = SvcClass ReadDataByIdentifier, positive = False, code = Some 0x31,
      code_name = ''RequestOutOfRange'', data = Some [0xAA, 0xBB], valid = True,
      invalid_reason = ''''\<rparr> = Inr [0x62, 0x7F, 0x31, 0xAA, 0xBB] \<and>
   Response_get_payload
     \<lparr>service = SvcInstance TesterPresent, positive = False, code = Some 0x11,
      code_name = ''ServiceNotSupported'', data = Some [0xAA], valid = True,
      invalid_reason = ''''\<rparr> = Inr [0x7E, 0x7F, 0x11]"
proof -
  let ?a = "\<lparr>service = SvcClass ReadDataByIdentifier, positive = False, code = Some 0x31,
      code_name = ''RequestOutOfRange'', data = None, valid = True,
      invalid_reason = ''''\<rparr>"
  let ?b = "\<lparr>service = SvcClass ReadDataByIdentifier, positive = False, code = Some 0x31,
      code_name = ''RequestOutOfRange'', data = Some [0xAA, 0xBB], valid = True,
      invalid_reason = ''''\<rparr>"
  let ?c = "\<lparr>service = SvcInstance TesterPresent, positive = False, code = Some 0x11,
      code_name = ''ServiceNotSupported'', data = Some [0xAA], valid = True,
      invalid_reason = ''''\<rparr>"
  have a: "Response_get_payload ?a = Inr [0x62, 0x7F, 0x31]"
    using negative_payload [of ?a ReadDataByIdentifier "0x31"]
    by (simp add: ReadDataByIdentifier_def)
  have b: "Response_get_payload ?b = Inr [0x62, 0x7F, 0x31, 0xAA, 0xBB]"
    using negative_payload [of ?b ReadDataByIdentifier "0x31"]
    by (simp add: ReadDataByIdentifier_def)
  have c: "Response_get_payload ?c = Inr [0x7E, 0x7F, 0x11]"
    using negative_payload [of ?c TesterPresent "0x11"]
    by (simp add: TesterPresent_def)
  from a b c show ?thesis by simp
qed

subsection \<open>The status byte of a Dtc\<close>

text \<open>
  The eight tests of the setter read the bits 0 to 7 of the byte, and the byte that the
  getter builds in its local variable is the sum of the bits of the fields that are set.
\<close>

lemma and_exp_positive_iff_bit: "((b::int) AND 2 ^ k > 0) = bit b k"
proof (cases "bit b k")
  case True
  have "b AND 2 ^ k = 2 ^ k"
    by (rule bit_eqI) (use True in \<open>auto simp: bit_simps\<close>)
  with True show ?thesis by simp
next
  case False
  then have "b AND 2 ^ k = 0"
    by (simp add: and_exp_eq_0_iff_not_bit)
  with False show ?thesis by simp
qed

lemma status_setter_bits:
  "status_setter d b =
     d\<lparr>testFailed := bit b 0,
       testFailedThisOperationCycle := bit b 1,
       pending := bit b 2,
       confirmed := bit b 3,
       testNotCompletedSinceLastClear := bit b 4,
       testFailedSinceLastClear := bit b 5,
       testNotCompletedThisOperationCycle := bit b 6,
       warningIndicatorRequested := bit b 7\<rparr>"
  using and_exp_positive_iff_bit [of b 0] and_exp_positive_iff_bit [of b 1]
    and_exp_positive_iff_bit [of b 2] and_exp_positive_iff_bit [of b 3]
    and_exp_positive_iff_bit [of b 4] and_exp_positive_iff_bit [of b 5]
    and_exp_positive_iff_bit [of b 6] and_exp_positive_iff_bit [of b 7]
  by (simp add: status_setter_def)

lemma status_byte_sum:
  "status_byte d =
     of_bool (testFailed d) + 2 * of_bool (testFailedThisOperationCycle d) +
     4 * of_bool (pending d) + 8 * of_bool (confirmed d) +
     16 * of_bool (testNotCompletedSinceLastClear d) +
     32 * of_bool (testFailedSinceLastClear d) +
     64 * of_bool (testNotCompletedThisOperationCycle d) +
     128 * of_bool (warningIndicatorRequested d)"
  by (simp add: status_byte_def Let_def)

lemma byte_as_bits:
  assumes "0 \<le> b" "b \<le> 255"
  shows "(b::int) =
     of_bool (bit b 0) + 2 * of_bool (bit b 1) + 4 * of_bool (bit b 2) +
     8 * of_bool (bit b 3) + 16 * of_bool (bit b 4) + 32 * of_bool (bit b 5) +
     64 * of_bool (bit b 6) + 128 * of_bool (bit b 7)"
proof -
  have upt8: "[0..<8] = [0, 1, 2, 3, 4, 5, 6, 7 :: nat]"
    by (simp add: upt_rec)
  from assms have "take_bit 8 b = b" by (simp add: take_bit_int_eq_self)
  moreover have "horner_sum of_bool 2 (map (bit b) [0..<8]) = take_bit 8 b"
    by (rule horner_sum_bit_eq_take_bit)
  ultimately have "b = horner_sum of_bool 2 (map (bit b) [0..<8])" by simp
  then show ?thesis unfolding upt8 by simp
qed

text \<open>
  The byte built by the getter and the setter are inverse to each other: the packing that
  the getter computes is the one the property is meant to have.
\<close>

lemma status_byte_of_setter:
  assumes "0 \<le> b" "b \<le> 255"
  shows "status_byte (status_setter d b) = b"
  using byte_as_bits [OF assms] by (simp add: status_byte_sum status_setter_bits)

lemma status_setter_of_byte: "status_setter d (status_byte d) = d"
  by (simp add: status_setter_def status_byte_def Let_def)

lemma status_byte_range: "0 \<le> status_byte d \<and> status_byte d \<le> 255"
  by (simp add: status_byte_sum)

text \<open>
  Claim C5: the status byte is a lossless bijection between the eight fields and one byte;
  reading the property yields the packed byte, and setting it to a byte and reading it
  back yields the same byte. The code does not do this: the getter builds the byte and
  ends without returning it, so reading the property yields \<^verbatim>\<open>None\<close> for every object,
  also right after the setter has stored a byte.
\<close>

theorem status_getter_returns_None:
  "status self = None \<and> status (status_setter self byte) = None"
  by (simp add: status_def)

subsection \<open>A negative response payload\<close>

text \<open>
  Claim C6, as stated: for the payload \<open>0x7F 0x22 0x31\<close>, in a registry where request
  ID \<open>0x22\<close> maps to response ID \<open>0x62\<close>, the result is a negative Response with
  code \<open>0x31\<close>. \<^verbatim>\<open>from_payload\<close> looks byte 0 up as a response ID; \<open>0x7F\<close> is none
  in the example registry, so the result is invalid and has no code.
\<close>

theorem from_payload_7F_first_counterexample:
  "cls_from_request_id example_registry 0x22 = Some ReadDataByIdentifier \<and>
   response_id ReadDataByIdentifier = 0x62 \<and>
   Response_from_payload example_registry [0x7F, 0x22, 0x31] =
     Inr \<lparr>service = SvcNone, positive = False, code = None, code_name = '''',
          data = None, valid = False,
          invalid_reason = ''Payload first byte is not a know service.''\<rparr>"
  by (simp add: Response_from_payload_def Response_init_default cls_from_response_id_def
      cls_from_request_id_def example_defs)

text \<open>
  In no registry does that payload give the code \<open>0x31\<close>: where \<open>0x7F\<close> is the
  response ID of a service, byte 1 is not the marker and the response is positive.
\<close>

lemma marker_first_never_gives_code:
  "\<exists>r. Response_from_payload reg [0x7F, 0x22, 0x31] = Inr r \<and> code r \<noteq> Some 0x31"
  by (cases "cls_from_response_id reg 0x7F")
     (simp_all add: Response_from_payload_def Response_init_default PositiveResponse_def)

text \<open>
  Claim C6, amended: for the payload \<open>0x62 0x7F 0x31\<close> (response ID, marker, code: the
  layout that \<^verbatim>\<open>get_payload\<close> writes), in a registry where response ID \<open>0x62\<close>
  resolves to a service, the result is a valid negative Response of that service with
  \<^verbatim>\<open>positive\<close> false and code \<open>0x31\<close>, named RequestOutOfRange.
\<close>

theorem from_payload_negative:
  assumes "cls_from_response_id reg 0x62 = Some s"
  shows "\<exists>r. Response_from_payload reg [0x62, 0x7F, 0x31] = Inr r \<and>
             service r = SvcClass s \<and> \<not> positive r \<and> code r = Some 0x31 \<and>
             code_name r = ''RequestOutOfRange'' \<and> data r = None \<and> valid r"
  using assms
  by (simp add: Response_from_payload_def Response_init_default Code_get_name_def
      Code_members_def)

theorem from_payload_negative_witness:
  "cls_from_response_id example_registry 0x62 = Some ReadDataByIdentifier \<and>
   cls_from_request_id example_registry 0x22 = Some ReadDataByIdentifier \<and>
   (\<exists>r. Response_from_payload example_registry [0x62, 0x7F, 0x31] = Inr r \<and>
        service r = SvcClass ReadDataByIdentifier \<and> \<not> positive r \<and> code r = Some 0x31 \<and>
        code_name r = ''RequestOutOfRange'' \<and> data r = None \<and> valid r)"
proof -
  have a: "cls_from_response_id example_registry 0x62 = Some ReadDataByIdentifier"
    by (simp add: cls_from_response_id_def example_defs)
  have b: "cls_from_request_id example_registry 0x22 = Some ReadDataByIdentifier"
    by (simp add: cls_from_request_id_def example_defs)
  from from_payload_negative [OF a] a b show ?thesis by simp
qed

subsection \<open>Classifying a response code\<close>

text \<open>
  Claim C7. \<^verbatim>\<open>Response.Code.is_negative\<close> returns false for the absent code and for the
  sentinel \<^verbatim>\<open>PositiveResponse\<close>, false for every code that is the value of no named
  constant of the taxonomy (in the range 0 to \<open>0xFF\<close> and outside it), and true for
  every named constant other than \<^verbatim>\<open>PositiveResponse\<close>.
\<close>

theorem is_negative_classification:
  "\<not> Code_is_negative None \<and>
   \<not> Code_is_negative (Some PositiveResponse) \<and>
   (\<forall>c. c \<notin> snd ` set Code_members \<longrightarrow> \<not> Code_is_negative (Some c)) \<and>
   (\<forall>member \<in> set Code_members.
      snd member \<noteq> PositiveResponse \<longrightarrow> Code_is_negative (Some (snd member)))"
proof -
  have unknown: "\<not> Code_is_negative (Some c)" if "c \<notin> snd ` set Code_members" for c
    using find_no_member [OF that] by (simp add: Code_is_negative_def)
  have known: "Code_is_negative (Some (snd member))"
    if "member \<in> set Code_members" "snd member \<noteq> PositiveResponse" for member
  proof -
    from that(1) have "find (\<lambda>m. snd m = snd member) Code_members \<noteq> None"
      unfolding find_None_iff by blast
    with that(2) show ?thesis by (auto simp: Code_is_negative_def)
  qed
  from unknown known show ?thesis by (simp add: Code_is_negative_def)
qed

text \<open>
  The theorem at the unregistered code \<open>0x20\<close> and at the registered codes
  RequestOutOfRange (\<open>0x31\<close>) and VoltageTooLow (\<open>0x93\<close>).
\<close>

theorem is_negative_classification_witness:
  "(0x20 :: int) \<notin> snd ` set Code_members \<and> \<not> Code_is_negative (Some 0x20) \<and>
   (''RequestOutOfRange'', 0x31) \<in> set Code_members \<and> Code_is_negative (Some 0x31) \<and>
   (''VoltageTooLow'', 0x93) \<in> set Code_members \<and> Code_is_negative (Some 0x93) \<and>
   \<not> Code_is_negative None \<and> \<not> Code_is_negative (Some 0)"
proof -
  have a: "(0x20 :: int) \<notin> snd ` set Code_members"
    by (simp add: Code_members_def)
  have b: "(''RequestOutOfRange'', 0x31) \<in> set Code_members"
    by (simp add: Code_members_def)
  have c: "(''VoltageTooLow'', 0x93) \<in> set Code_members"
    by (simp add: Code_members_def)
  note t = is_negative_classification
  note unknown = t [THEN conjunct2, THEN conjunct2, THEN conjunct1, rule_format]
  note known = t [THEN conjunct2, THEN conjunct2, THEN conjunct2, rule_format]
  from unknown [OF a] have a': "\<not> Code_is_negative (Some 0x20)" .
  from known [OF b] have b': "Code_is_negative (Some 0x31)"
    by (simp add: PositiveResponse_def)
  from known [OF c] have c': "Code_is_negative (Some 0x93)"
    by (simp add: PositiveResponse_def)
  from t [THEN conjunct1] have d: "\<not> Code_is_negative None" .
  from t [THEN conjunct2, THEN conjunct1] have e: "\<not> Code_is_negative (Some 0)"
    by (simp add: PositiveResponse_def)
  show ?thesis
    by (intro conjI) (rule a a' b b' c c' d e)+
qed

subsection \<open>Resolving a codec from a configuration value\<close>

text \<open>
  Claim C8, as stated: \<^verbatim>\<open>DidCodec.from_config\<close> returns an instance unchanged,
  instantiates a subclass, wraps a string, and fails with a configuration error for every
  argument of any other shape. The last part fails: for the integer 5 no \<^verbatim>\<open>if\<close> applies,
  the body ends, and the call returns \<^verbatim>\<open>None\<close> without raising.
\<close>

theorem from_config_counterexample:
  "from_config (NotACodec (PyInt 5)) = Inr None"
  by (simp add: from_config_def)

text \<open>
  Claim C8, amended: \<^verbatim>\<open>DidCodec.from_config\<close> returns its argument unchanged when it is
  already a DidCodec instance; when the argument is a DidCodec subclass it calls the
  subclass with no argument and returns the instance that call returns, or raises what
  that call raises (for a subclass that inherits the constructor, the instance has no pack
  format); it returns a DidCodec wrapping the string as its pack format when the argument
  is a string; and for every argument of any other shape it raises nothing and returns
  \<^verbatim>\<open>None\<close>.
\<close>

theorem from_config_cases:
  "from_config (CodecInstance c) = Inr (Some c) \<and>
   (\<forall>c'. call_no_args cls = Inr c' \<longrightarrow> from_config (CodecClass cls) = Inr (Some c')) \<and>
   (\<forall>e. call_no_args cls = Inl e \<longrightarrow> from_config (CodecClass cls) = Inl e) \<and>
   from_config (CodecClass (inheriting_class n)) = Inr (Some (DidCodec_init n None)) \<and>
   from_config (NotACodec (PyStr s)) = Inr (Some (DidCodec_init ''DidCodec'' (Some s))) \<and>
   ((\<forall>s. v \<noteq> PyStr s) \<longrightarrow> from_config (NotACodec v) = Inr None)"
  by (cases v) (simp_all add: from_config_def inheriting_class_def)

text \<open>
  The theorem at an instance of a subclass, at the three subclasses (one that inherits the
  constructor, one that sets its own pack format, one whose constructor raises), at the
  format string \<^verbatim>\<open>">H"\<close>, and at \<^verbatim>\<open>None\<close>, an integer and a \<^verbatim>\<open>bytes\<close> object.
\<close>

theorem from_config_cases_witness:
  "from_config (CodecInstance \<lparr>codec_class = ''MyCodec'', packstr = None\<rparr>) =
     Inr (Some \<lparr>codec_class = ''MyCodec'', packstr = None\<rparr>) \<and>
   from_config (CodecClass MyCodec) =
     Inr (Some \<lparr>codec_class = ''MyCodec'', packstr = None\<rparr>) \<and>
   call_no_args FixedCodec = Inr \<lparr>codec_class = ''FixedCodec'', packstr = Some ''>H''\<rparr> \<and>
   from_config (CodecClass FixedCodec) =
     Inr (Some \<lparr>codec_class = ''FixedCodec'', packstr = Some ''>H''\<rparr>) \<and>
   call_no_args ArgCodec =
     Inl (TypeError ''__init__() missing 1 required positional argument'') \<and>
   from_config (CodecClass ArgCodec) =
     Inl (TypeError ''__init__() missing 1 required positional argument'') \<and>
   from_config (NotACodec (PyStr ''>H'')) =
     Inr (Some \<lparr>codec_class = ''DidCodec'', packstr = Some ''>H''\<rparr>) \<and>
   from_config (NotACodec PyNone) = Inr None \<and>
   from_config (NotACodec (PyInt 5)) = Inr None \<and>
   from_config (NotACodec (PyBytes [0x3E, 0x48])) = Inr None"
proof -
  let ?i = "\<lparr>codec_class = ''MyCodec'', packstr = None\<rparr>"
  have f: "call_no_args FixedCodec = Inr \<lparr>codec_class = ''FixedCodec'', packstr = Some ''>H''\<rparr>"
    by (simp add: FixedCodec_def)
  have g: "call_no_args ArgCodec =
             Inl (TypeError ''__init__() missing 1 required positional argument'')"
    by (simp add: ArgCodec_def)
  note t1 = from_config_cases [of ?i FixedCodec "''MyCodec''" "''>H''" PyNone]
  note t2 = from_config_cases [of ?i ArgCodec "''MyCodec''" "''>H''" "PyInt 5"]
  note t3 = from_config_cases [of ?i ArgCodec "''MyCodec''" "''>H''" "PyBytes [0x3E, 0x48]"]
  from t1 have i: "from_config (CodecInstance ?i) = Inr (Some ?i)" by simp
  from t1 have m: "from_config (CodecClass MyCodec) = Inr (Some ?i)"
    by (simp add: MyCodec_def DidCodec_init_def)
  from t1 f have fx: "from_config (CodecClass FixedCodec) =
      Inr (Some \<lparr>codec_class = ''FixedCodec'', packstr = Some ''>H''\<rparr>)" by simp
  from t2 g have ar: "from_config (CodecClass ArgCodec) =
      Inl (TypeError ''__init__() missing 1 required positional argument'')" by simp
  from t1 have s: "from_config (NotACodec (PyStr ''>H'')) =
      Inr (Some \<lparr>codec_class = ''DidCodec'', packstr = Some ''>H''\<rparr>)"
    by (simp add: DidCodec_init_def)
  from t1 have a: "from_config (NotACodec PyNone) = Inr None" by simp
  from t2 have b: "from_config (NotACodec (PyInt 5)) = Inr None" by simp
  from t3 have c: "from_config (NotACodec (PyBytes [0x3E, 0x48])) = Inr None" by simp
  show ?thesis
    by (intro conjI) (rule i m f fx g ar s a b c)+
qed

subsection \<open>Updating the status of a Dtc\<close>

text \<open>
  Claim C9: for every Dtc object and every subset of the eight status fields supplied to
  \<^verbatim>\<open>updateStatus\<close>, each supplied argument overwrites its own field and every other field
  keeps its value, \<^verbatim>\<open>testNotCompletedThisOperationCycle\<close> included. The code does not do
  this: the signature lacks \<^verbatim>\<open>self\<close> and \<^verbatim>\<open>testNotCompletedThisOperationCycle\<close>, so every
  call on an object raises and no field is ever written.
\<close>

theorem updateStatus_always_raises:
  "\<exists>e. updateStatus d kwargs = Inl e"
  by (simp add: updateStatus_def updateStatus_body_def)

text \<open>The three ways a call fails.\<close>

lemma updateStatus_pending:
  "updateStatus d [(''pending'', True)] = Inl (NameError ''self'')"
  by (simp add: updateStatus_def updateStatus_body_def updateStatus_params_def)

lemma updateStatus_testNotCompletedThisOperationCycle:
  "updateStatus d [(''testNotCompletedThisOperationCycle'', True)] =
     Inl (TypeError ''updateStatus() got an unexpected keyword argument'')"
  by (simp add: updateStatus_def updateStatus_params_def)

lemma updateStatus_testFailed:
  "updateStatus d [(''testFailed'', True)] =
     Inl (TypeError ''updateStatus() got multiple values for argument testFailed'')"
  by (simp add: updateStatus_def updateStatus_params_def)


subsection \<open>Constructing a response with an unregistered code\<close>

text \<open>
  Claim C10. For every service, given as a class or as an instance, and every integer
  code from 1 to \<open>0xFF\<close> that is the value of no named constant of the taxonomy, the
  Response constructor succeeds and the object has \<^verbatim>\<open>positive\<close> true and \<^verbatim>\<open>valid\<close> true:
  an unregistered nonzero code is classified as a positive response. The data argument is
  absent, or a \<^verbatim>\<open>bytes\<close> object for a service that declares response data.
\<close>

theorem init_unregistered_code_positive:
  assumes "1 \<le> c" and "c \<le> 0xFF" and "c \<notin> snd ` set Code_members"
    and "descriptor sv = Some s"
    and "data_a = PyNone \<or> (\<exists>d. data_a = PyBytes d \<and> has_response_data s)"
  shows "\<exists>r. Response_init (Service sv) (PyInt c) data_a = Inr r \<and>
             positive r \<and> valid r \<and> code r = Some c \<and> service r = sv"
proof -
  from find_no_member [OF assms(3)] have neg: "\<not> Code_is_negative (Some c)"
    by (simp add: Code_is_negative_def)
  from assms(4) have sv: "sv \<noteq> SvcNone" by (cases sv) simp_all
  from assms(5) show ?thesis
  proof
    assume "data_a = PyNone"
    with assms(1,2) neg sv show ?thesis
      by (simp add: Response_init_def Let_def)
  next
    assume "\<exists>d. data_a = PyBytes d \<and> has_response_data s"
    then obtain d where "data_a = PyBytes d" "has_response_data s" by blast
    with assms(1,2,4) neg sv show ?thesis
      by (cases sv) (simp_all add: Response_init_def Let_def)
  qed
qed

text \<open>The theorem at the code \<open>0x20\<close>, without data and with data.\<close>

theorem init_unregistered_code_positive_witness:
  "(1 :: int) \<le> 0x20 \<and> (0x20 :: int) \<le> 0xFF \<and> (0x20 :: int) \<notin> snd ` set Code_members \<and>
   descriptor (SvcClass ReadDataByIdentifier) = Some ReadDataByIdentifier \<and>
   has_response_data ReadDataByIdentifier \<and>
   (\<exists>r. Response_init (Service (SvcClass ReadDataByIdentifier)) (PyInt 0x20) PyNone = Inr r \<and>
        positive r \<and> valid r \<and> code r = Some 0x20) \<and>
   (\<exists>r. Response_init (Service (SvcClass ReadDataByIdentifier)) (PyInt 0x20) (PyBytes [0x01]) =
          Inr r \<and>
        positive r \<and> valid r \<and> code r = Some 0x20)"
proof -
  have a: "(1 :: int) \<le> 0x20" and b: "(0x20 :: int) \<le> 0xFF" by simp_all
  have m: "(0x20 :: int) \<notin> snd ` set Code_members"
    by (simp add: Code_members_def)
  have d: "descriptor (SvcClass ReadDataByIdentifier) = Some ReadDataByIdentifier" by simp
  have h: "has_response_data ReadDataByIdentifier"
    by (simp add: ReadDataByIdentifier_def)
  have n: "(PyNone :: pyobj) = PyNone \<or>
           (\<exists>d. PyNone = PyBytes d \<and> has_response_data ReadDataByIdentifier)" by simp
  have y: "PyBytes [0x01] = PyNone \<or>
           (\<exists>d. PyBytes [0x01] = PyBytes d \<and> has_response_data ReadDataByIdentifier)"
    using h by simp
  from init_unregistered_code_positive [OF a b m d n]
  have r1: "\<exists>r. Response_init (Service (SvcClass ReadDataByIdentifier)) (PyInt 0x20) PyNone =
               Inr r \<and> positive r \<and> valid r \<and> code r = Some 0x20"
    by (elim exE conjE) (intro exI conjI, assumption+)
  from init_unregistered_code_positive [OF a b m d y]
  have r2: "\<exists>r. Response_init (Service (SvcClass ReadDataByIdentifier)) (PyInt 0x20)
                 (PyBytes [0x01]) =
               Inr r \<and> positive r \<and> valid r \<and> code r = Some 0x20"
    by (elim exE conjE) (intro exI conjI, assumption+)
  show ?thesis
    by (intro conjI) (rule a b m d h r1 r2)+
qed

end
